theory Spec2Isabelle
  imports Complex_Main "HOL-Library.Multiset" "HOL-Library.Log_Nat"
begin

section \<open>Instants and the local calendar\<close>

text \<open>
  The analytics of \<^verbatim>\<open>server/storage.ts\<close> build their windows with the JavaScript
  \<^verbatim>\<open>Date\<close> class. An instant is a number of milliseconds since the epoch, an \<^typ>\<open>int\<close>
  here. The definitions below follow the abstract operations of ECMA-262 (Day,
  DayFromYear, MakeDay, MakeTime, MakeDate, TimeClip, WeekDay). The server's time zone is a
  parameter \<open>tz\<close>: the offset of local time from UTC in milliseconds, taken as constant
  (no daylight-saving change is modelled).
\<close>

definition msPerDay :: int where
  "msPerDay = 86400000"

definition Day :: "int \<Rightarrow> int" where
  "Day t = t div msPerDay"

definition DayFromYear :: "int \<Rightarrow> int" where
  "DayFromYear y =
     365 * (y - 1970) + (y - 1969) div 4 - (y - 1901) div 100 + (y - 1601) div 400"

definition DaysInYear :: "int \<Rightarrow> int" where
  "DaysInYear y =
     (if y mod 4 \<noteq> 0 then 365
      else if y mod 100 \<noteq> 0 then 366
      else if y mod 400 \<noteq> 0 then 365
      else 366)"

definition InLeapYear :: "int \<Rightarrow> int" where
  "InLeapYear y = (if DaysInYear y = 366 then 1 else 0)"

text \<open>The day within the year on which month \<open>mn\<close> (0 = January) begins.\<close>

definition monthStart :: "int \<Rightarrow> int \<Rightarrow> int" where
  "monthStart leap mn =
     (if mn = 0 then 0
      else if mn = 1 then 31
      else if mn = 2 then 59 + leap
      else if mn = 3 then 90 + leap
      else if mn = 4 then 120 + leap
      else if mn = 5 then 151 + leap
      else if mn = 6 then 181 + leap
      else if mn = 7 then 212 + leap
      else if mn = 8 then 243 + leap
      else if mn = 9 then 273 + leap
      else if mn = 10 then 304 + leap
      else 334 + leap)"

definition MakeDay :: "int \<Rightarrow> int \<Rightarrow> int \<Rightarrow> int" where
  "MakeDay year month date =
     (let ym = year + month div 12;
          mn = month mod 12
      in DayFromYear ym + monthStart (InLeapYear ym) mn + date - 1)"

definition MakeTime :: "int \<Rightarrow> int \<Rightarrow> int \<Rightarrow> int \<Rightarrow> int" where
  "MakeTime hour minute sec ms = hour * 3600000 + minute * 60000 + sec * 1000 + ms"

definition MakeDate :: "int \<Rightarrow> int \<Rightarrow> int" where
  "MakeDate day time = day * msPerDay + time"

text \<open>
  \<^verbatim>\<open>TimeClip\<close>: an instant further than 8.64e15 ms from the epoch is no date; the
  \<^verbatim>\<open>Date\<close> is invalid and its \<^verbatim>\<open>getTime()\<close> is NaN, \<open>None\<close> here.
\<close>

definition TimeClip :: "int \<Rightarrow> int option" where
  "TimeClip t = (if \<bar>t\<bar> > 8640000000000000 then None else Some t)"

text \<open>
  \<^verbatim>\<open>new Date(year, month, date, hours, minutes, seconds).getTime()\<close> in the zone \<open>tz\<close>.
  A year from 0 to 99 stands for 1900 + year.
\<close>

definition newDate :: "int \<Rightarrow> int \<Rightarrow> int \<Rightarrow> int \<Rightarrow> int \<Rightarrow> int \<Rightarrow> int \<Rightarrow> int option" where
  "newDate tz year month date hours minutes seconds =
     (let yr = (if 0 \<le> year \<and> year \<le> 99 then 1900 + year else year)
      in TimeClip (MakeDate (MakeDay yr month date) (MakeTime hours minutes seconds 0) - tz))"

text \<open>The getters read the local time \<open>t + tz\<close> of a valid instant \<open>t\<close>.\<close>

definition YearFromDay :: "int \<Rightarrow> int" where
  "YearFromDay d =
     (let y0 = 1970 + (d * 400) div 146097
      in if d < DayFromYear y0 then y0 - 1
         else if DayFromYear (y0 + 1) \<le> d then y0 + 1
         else y0)"

definition getFullYear :: "int \<Rightarrow> int \<Rightarrow> int" where
  "getFullYear tz t = YearFromDay (Day (t + tz))"

text \<open>The month in which the day \<open>dy\<close> of a year falls (\<open>leap\<close> is 1 in a leap year).\<close>

definition MonthFromDayWithinYear :: "int \<Rightarrow> int \<Rightarrow> int" where
  "MonthFromDayWithinYear leap dy =
     (if dy < 31 then 0
      else if dy < 59 + leap then 1
      else if dy < 90 + leap then 2
      else if dy < 120 + leap then 3
      else if dy < 151 + leap then 4
      else if dy < 181 + leap then 5
      else if dy < 212 + leap then 6
      else if dy < 243 + leap then 7
      else if dy < 273 + leap then 8
      else if dy < 304 + leap then 9
      else if dy < 334 + leap then 10
      else 11)"

definition MonthFromDay :: "int \<Rightarrow> int" where
  "MonthFromDay d =
     (let y = YearFromDay d
      in MonthFromDayWithinYear (InLeapYear y) (d - DayFromYear y))"

definition getMonth :: "int \<Rightarrow> int \<Rightarrow> int" where
  "getMonth tz t = MonthFromDay (Day (t + tz))"

definition DateFromDay :: "int \<Rightarrow> int" where
  "DateFromDay d =
     (let y = YearFromDay d
      in d - DayFromYear y - monthStart (InLeapYear y) (MonthFromDay d) + 1)"

definition getDate :: "int \<Rightarrow> int \<Rightarrow> int" where
  "getDate tz t = DateFromDay (Day (t + tz))"

text \<open>\<^verbatim>\<open>getDay()\<close>: 0 is Sunday; the epoch was a Thursday.\<close>

definition getDay :: "int \<Rightarrow> int \<Rightarrow> int" where
  "getDay tz t = (Day (t + tz) + 4) mod 7"

text \<open>\<^verbatim>\<open>d.setHours(0, 0, 0, 0)\<close>: the local midnight of the local day of \<open>d\<close>.\<close>

definition setHours0 :: "int \<Rightarrow> int option \<Rightarrow> int option" where
  "setHours0 tz d =
     (case d of
        None \<Rightarrow> None
      | Some t \<Rightarrow> TimeClip (MakeDate (Day (t + tz)) (MakeTime 0 0 0 0) - tz))"

section \<open>Numbers\<close>

text \<open>
  A JavaScript number is an IEEE 754 double: a finite one is the rational it denotes
  (\<open>Num\<close>), and the others are the two infinities and NaN. The model has one zero (the
  sign of a zero is not kept; where it matters, in a division by zero, the zero is taken
  as +0).
\<close>

datatype double = Num rat | PosInfinity | NegInfinity | NaN

text \<open>The exponent \<open>e\<close> of a positive rational \<open>x\<close>: \<open>2 ^ e \<le> x < 2 ^ (e + 1)\<close>.\<close>

definition ilog2 :: "rat \<Rightarrow> int" where
  "ilog2 x =
     (let (p, q) = quotient_of x;
          k = bitlen p - bitlen q
      in if 2 powi k \<le> x then k else k - 1)"

definition roundTiesToEven :: "rat \<Rightarrow> int" where
  "roundTiesToEven m =
     (let f = \<lfloor>m\<rfloor>;
          d = m - of_int f
      in if d < 1 / 2 then f
         else if 1 / 2 < d then f + 1
         else if even f then f else f + 1)"

text \<open>\<^verbatim>\<open>Number.MAX_VALUE\<close>, the largest finite double: \<open>(2 ^ 53 - 1) * 2 ^ 971\<close>.\<close>

definition MAX_VALUE :: rat where
  "MAX_VALUE = 179769313486231570814527423731704356798070567525844996598917476803157260780028538760589558632766878171540458953514382464234321326889464182768467546703537516986049910576551282076245490090389328944075868508455133942304583236903222948165808559332123348274797826204144723168738177180919299881250404026184124858368"

text \<open>
  The double nearest to a real number, as every arithmetic operation rounds its exact
  result: 53 significant bits, the least exponent -1022 (below it the spacing stays
  \<open>2 ^ -1074\<close>), a tie going to the even significand, and a result beyond
  \<^verbatim>\<open>Number.MAX_VALUE\<close> becoming an infinity.
\<close>

definition fl :: "rat \<Rightarrow> double" where
  "fl x =
     (if x = 0 then Num 0
      else let e = max (ilog2 \<bar>x\<bar>) (- 1022);
               ulp = 2 powi (e - 52);
               r = of_int (roundTiesToEven (x / ulp)) * ulp
           in if MAX_VALUE < \<bar>r\<bar> then (if 0 < x then PosInfinity else NegInfinity)
              else Num r)"

text \<open>The operators \<^verbatim>\<open>+\<close>, \<^verbatim>\<open>*\<close>, \<^verbatim>\<open>/\<close> and \<^verbatim>\<open>>\<close> on numbers.\<close>

fun fadd :: "double \<Rightarrow> double \<Rightarrow> double" where
  "fadd NaN _ = NaN"
| "fadd _ NaN = NaN"
| "fadd PosInfinity NegInfinity = NaN"
| "fadd NegInfinity PosInfinity = NaN"
| "fadd PosInfinity _ = PosInfinity"
| "fadd _ PosInfinity = PosInfinity"
| "fadd NegInfinity _ = NegInfinity"
| "fadd _ NegInfinity = NegInfinity"
| "fadd (Num a) (Num b) = fl (a + b)"

fun fmul :: "double \<Rightarrow> double \<Rightarrow> double" where
  "fmul NaN _ = NaN"
| "fmul _ NaN = NaN"
| "fmul (Num a) (Num b) = fl (a * b)"
| "fmul (Num a) PosInfinity = (if a = 0 then NaN else if 0 < a then PosInfinity else NegInfinity)"
| "fmul (Num a) NegInfinity = (if a = 0 then NaN else if 0 < a then NegInfinity else PosInfinity)"
| "fmul PosInfinity (Num b) = (if b = 0 then NaN else if 0 < b then PosInfinity else NegInfinity)"
| "fmul NegInfinity (Num b) = (if b = 0 then NaN else if 0 < b then NegInfinity else PosInfinity)"
| "fmul PosInfinity PosInfinity = PosInfinity"
| "fmul PosInfinity NegInfinity = NegInfinity"
| "fmul NegInfinity PosInfinity = NegInfinity"
| "fmul NegInfinity NegInfinity = PosInfinity"

fun fdiv :: "double \<Rightarrow> double \<Rightarrow> double" where
  "fdiv NaN _ = NaN"
| "fdiv _ NaN = NaN"
| "fdiv (Num a) (Num b) =
     (if b = 0 then (if a = 0 then NaN else if 0 < a then PosInfinity else NegInfinity)
      else fl (a / b))"
| "fdiv (Num a) PosInfinity = Num 0"
| "fdiv (Num a) NegInfinity = Num 0"
| "fdiv PosInfinity (Num b) = (if 0 \<le> b then PosInfinity else NegInfinity)"
| "fdiv NegInfinity (Num b) = (if 0 \<le> b then NegInfinity else PosInfinity)"
| "fdiv PosInfinity PosInfinity = NaN"
| "fdiv PosInfinity NegInfinity = NaN"
| "fdiv NegInfinity PosInfinity = NaN"
| "fdiv NegInfinity NegInfinity = NaN"

fun fgt :: "double \<Rightarrow> double \<Rightarrow> bool" where
  "fgt NaN _ = False"
| "fgt _ NaN = False"
| "fgt (Num a) (Num b) = (b < a)"
| "fgt PosInfinity PosInfinity = False"
| "fgt PosInfinity _ = True"
| "fgt _ PosInfinity = False"
| "fgt NegInfinity _ = False"
| "fgt _ NegInfinity = True"

text \<open>\<^verbatim>\<open>Math.round\<close>: the nearest integer, a tie going up; an infinity or NaN is returned as it is.\<close>

definition Math_round :: "double \<Rightarrow> double" where
  "Math_round x = (case x of Num q \<Rightarrow> Num (of_int \<lfloor>q + 1 / 2\<rfloor>) | _ \<Rightarrow> x)"

section \<open>The tables\<close>

text \<open>
  The rows of \<^verbatim>\<open>shared/schema.ts\<close>, with the columns the analytics read. Identifiers
  and the \<^verbatim>\<open>type\<close> and \<^verbatim>\<open>period\<close> columns are \<^verbatim>\<open>text\<close>; amounts are \<^verbatim>\<open>real\<close> columns,
  and a row holds the rational number that the stored double denotes. The column
  \<^verbatim>\<open>transactions.date\<close> is \<^verbatim>\<open>integer("date", { mode: 'timestamp' })\<close>: \<open>tx_date\<close> is
  the integer held in the table.
\<close>

record category =
  cat_id :: string
  cat_familyGroupId :: string
  cat_name :: string
  cat_type :: string

record transaction =
  tx_id :: string
  tx_familyGroupId :: string
  tx_userId :: string
  tx_categoryId :: string
  tx_amount :: rat
  tx_type :: string
  tx_date :: int

record spendingAlert =
  sa_id :: string
  sa_familyGroupId :: string
  sa_userId :: string
  sa_categoryId :: "string option"
  sa_limitAmount :: rat
  sa_period :: string
  sa_isActive :: bool
  sa_createdAt :: int

section \<open>Queries\<close>

text \<open>
  A comparison \<^verbatim>\<open>sql`${transactions.date} >= ${bound}`\<close> binds the number \<open>bound\<close>
  as it is. A NaN bound reaches SQLite as NULL, and a comparison with NULL selects no row.
\<close>

definition sql_ge :: "int \<Rightarrow> int option \<Rightarrow> bool" where
  "sql_ge d bound = (case bound of None \<Rightarrow> False | Some b \<Rightarrow> b \<le> d)"

definition sql_le :: "int \<Rightarrow> int option \<Rightarrow> bool" where
  "sql_le d bound = (case bound of None \<Rightarrow> False | Some b \<Rightarrow> d \<le> b)"

text \<open>
  \<^verbatim>\<open>select key, sum(val) ... group by key\<close>: one row per distinct key among the selected
  rows, holding the sum over the rows of that key. SQL leaves the order of the groups
  open; the model lists them in the order \<^const>\<open>remdups\<close> gives. The sum is computed by the
  database engine, whose summation is not part of the sources; the model takes the exact
  sum of the amounts. The arithmetic that \<^verbatim>\<open>storage.ts\<close> itself does on the results of
  the queries is in doubles.
\<close>

definition groupSum :: "('r \<Rightarrow> 'k) \<Rightarrow> ('r \<Rightarrow> rat) \<Rightarrow> 'r list \<Rightarrow> ('k \<times> rat) list" where
  "groupSum key val rows =
     map (\<lambda>k. (k, sum_list (map val (filter (\<lambda>r. key r = k) rows)))) (remdups (map key rows))"

subsection \<open>getMonthlyBalance\<close>

record monthlyBalance =
  income :: rat
  expenses :: rat
  balance :: rat

text \<open>The rows the \<^verbatim>\<open>where\<close> clause of \<^verbatim>\<open>getMonthlyBalance\<close> selects.\<close>

definition monthlyRows :: "int \<Rightarrow> transaction list \<Rightarrow> string \<Rightarrow> int \<Rightarrow> int \<Rightarrow> transaction list" where
  "monthlyRows tz txs userId year month =
     (let startDate = newDate tz year (month - 1) 1 0 0 0;
          endDate = newDate tz year month 0 23 59 59
      in filter (\<lambda>t. tx_userId t = userId \<and> sql_ge (tx_date t) startDate
                      \<and> sql_le (tx_date t) endDate) txs)"

definition totalOf :: "string \<Rightarrow> (string \<times> rat) list \<Rightarrow> rat" where
  "totalOf ty results = (case find (\<lambda>r. fst r = ty) results of None \<Rightarrow> 0 | Some r \<Rightarrow> snd r)"

definition getMonthlyBalance ::
  "int \<Rightarrow> transaction list \<Rightarrow> string \<Rightarrow> int \<Rightarrow> int \<Rightarrow> monthlyBalance" where
  "getMonthlyBalance tz txs userId year month =
     (let results = groupSum tx_type tx_amount (monthlyRows tz txs userId year month);
          income = totalOf ''income'' results;
          expenses = totalOf ''expense'' results
      in \<lparr>income = income, expenses = expenses, balance = income - expenses\<rparr>)"

subsection \<open>getCategoryExpenses\<close>

text \<open>\<^verbatim>\<open>from xs inner join ys on ...\<close>: every pair of a row of \<open>xs\<close> and a matching row of \<open>ys\<close>.\<close>

definition innerJoin :: "'a list \<Rightarrow> 'b list \<Rightarrow> ('a \<Rightarrow> 'b \<Rightarrow> bool) \<Rightarrow> ('a \<times> 'b) list" where
  "innerJoin xs ys on = concat (map (\<lambda>x. map (Pair x) (filter (on x) ys)) xs)"

record categoryExpense =
  categoryId :: string
  categoryName :: string
  total :: rat
  percentage :: double

text \<open>The joined rows the \<^verbatim>\<open>where\<close> clause of \<^verbatim>\<open>getCategoryExpenses\<close> selects.\<close>

definition categoryRows ::
  "int \<Rightarrow> transaction list \<Rightarrow> category list \<Rightarrow> string \<Rightarrow> int \<Rightarrow> int
     \<Rightarrow> (transaction \<times> category) list" where
  "categoryRows tz txs cats userId year month =
     (let startDate = newDate tz year (month - 1) 1 0 0 0;
          endDate = newDate tz year month 0 23 59 59
      in filter (\<lambda>(t, c). tx_userId t = userId \<and> tx_type t = ''expense''
                           \<and> sql_ge (tx_date t) startDate \<and> sql_le (tx_date t) endDate)
           (innerJoin txs cats (\<lambda>t c. tx_categoryId t = cat_id c)))"

definition getCategoryExpenses ::
  "int \<Rightarrow> transaction list \<Rightarrow> category list \<Rightarrow> string \<Rightarrow> int \<Rightarrow> int \<Rightarrow> categoryExpense list" where
  "getCategoryExpenses tz txs cats userId year month =
     (let results = groupSum (\<lambda>(t, c). (cat_id c, cat_name c)) (\<lambda>(t, c). tx_amount t)
                      (categoryRows tz txs cats userId year month);
          totalExpenses = foldl (\<lambda>sum item. fadd sum (Num (snd item))) (Num 0) results
      in map (\<lambda>item.
                \<lparr>categoryId = fst (fst item),
                 categoryName = snd (fst item),
                 total = snd item,
                 percentage = (if fgt totalExpenses (Num 0)
                               then Math_round (fmul (fdiv (Num (snd item)) totalExpenses) (Num 100))
                               else Num 0)\<rparr>)
           results)"

subsection \<open>getSpendingAlerts and checkSpendingAlerts\<close>

record spendingAlertWithCategory = spendingAlert +
  sa_category :: "category option"

text \<open>
  \<^verbatim>\<open>from xs left join ys on ...\<close>: a row of \<open>xs\<close> with no match is kept once, with null
  for the columns of \<open>ys\<close>.
\<close>

definition leftJoin :: "'a list \<Rightarrow> 'b list \<Rightarrow> ('a \<Rightarrow> 'b \<Rightarrow> bool) \<Rightarrow> ('a \<times> 'b option) list" where
  "leftJoin xs ys on =
     concat (map (\<lambda>x. case filter (on x) ys of
                         [] \<Rightarrow> [(x, None)]
                       | y # others \<Rightarrow> map (\<lambda>y. (x, Some y)) (y # others)) xs)"

text \<open>
  \<^verbatim>\<open>order by created_at desc\<close>. SQL leaves the order of rows with equal keys open; the
  model keeps them in the order of the table.
\<close>

definition getSpendingAlerts ::
  "category list \<Rightarrow> spendingAlert list \<Rightarrow> string \<Rightarrow> spendingAlertWithCategory list" where
  "getSpendingAlerts cats alerts familyGroupId =
     sort_key (\<lambda>a. - sa_createdAt a)
       (map (\<lambda>(a, c). spendingAlert.extend a \<lparr>sa_category = c\<rparr>)
          (filter (\<lambda>(a, c). sa_familyGroupId a = familyGroupId)
             (leftJoin alerts cats (\<lambda>a c. sa_categoryId a = Some (cat_id c)))))"

text \<open>The start of the window of an alert, by its \<^verbatim>\<open>period\<close>, at the instant \<open>now\<close>.\<close>

definition alertStart :: "int \<Rightarrow> int \<Rightarrow> string \<Rightarrow> int option" where
  "alertStart tz now period =
     (if period = ''daily''
      then newDate tz (getFullYear tz now) (getMonth tz now) (getDate tz now) 0 0 0
      else if period = ''weekly''
      then (let dayOfWeek = getDay tz now
            in setHours0 tz (TimeClip (now - dayOfWeek * 24 * 60 * 60 * 1000)))
      else newDate tz (getFullYear tz now) (getMonth tz now) 1 0 0 0)"

text \<open>\<^verbatim>\<open>if (alert.categoryId)\<close>: null and the empty string are falsy.\<close>

definition truthy :: "string option \<Rightarrow> bool" where
  "truthy s = (case s of None \<Rightarrow> False | Some v \<Rightarrow> v \<noteq> [])"

text \<open>
  The conditions of \<^verbatim>\<open>whereClause\<close>, the category condition pushed last when the alert
  has a category; \<^verbatim>\<open>and(...whereClause)\<close> selects the rows that meet all of them.
\<close>

definition whereClause ::
  "int \<Rightarrow> int \<Rightarrow> string \<Rightarrow> 'a spendingAlert_scheme \<Rightarrow> (transaction \<Rightarrow> bool) list" where
  "whereClause tz now familyGroupId alert =
     (let startDate = alertStart tz now (sa_period alert);
          clause = [\<lambda>t. tx_familyGroupId t = familyGroupId,
                    \<lambda>t. tx_type t = ''expense'',
                    \<lambda>t. sql_ge (tx_date t) startDate,
                    \<lambda>t. sql_le (tx_date t) (Some now)]
      in if truthy (sa_categoryId alert)
         then clause @ [\<lambda>t. Some (tx_categoryId t) = sa_categoryId alert]
         else clause)"

definition currentSpendingOf ::
  "int \<Rightarrow> int \<Rightarrow> transaction list \<Rightarrow> string \<Rightarrow> 'a spendingAlert_scheme \<Rightarrow> rat" where
  "currentSpendingOf tz now txs familyGroupId alert =
     sum_list (map tx_amount
       (filter (\<lambda>t. list_all (\<lambda>cond. cond t) (whereClause tz now familyGroupId alert)) txs))"

definition percentageUsedOf :: "rat \<Rightarrow> rat \<Rightarrow> double" where
  "percentageUsedOf currentSpending limitAmount =
     (if fgt (Num limitAmount) (Num 0)
      then fmul (fdiv (Num currentSpending) (Num limitAmount)) (Num 100) else Num 0)"

record alertStatus =
  alert :: spendingAlertWithCategory
  currentSpending :: rat
  percentageUsed :: double

text \<open>The body of the loop: the entry pushed for one alert.\<close>

definition checkAlert ::
  "int \<Rightarrow> int \<Rightarrow> transaction list \<Rightarrow> string \<Rightarrow> spendingAlertWithCategory \<Rightarrow> alertStatus" where
  "checkAlert tz now txs familyGroupId a =
     (let currentSpending = currentSpendingOf tz now txs familyGroupId a;
          limitAmount = sa_limitAmount a;
          percentageUsed = percentageUsedOf currentSpending limitAmount
      in \<lparr>alert = a, currentSpending = currentSpending, percentageUsed = percentageUsed\<rparr>)"

text \<open>
  The loop over the active alerts, pushing one entry per alert onto \<open>results\<close>. The source
  reads the clock once per alert; the model takes the same instant \<open>now\<close> for each.
\<close>

fun checkLoop ::
  "int \<Rightarrow> int \<Rightarrow> transaction list \<Rightarrow> string \<Rightarrow> spendingAlertWithCategory list
     \<Rightarrow> alertStatus list \<Rightarrow> alertStatus list" where
  "checkLoop tz now txs familyGroupId [] results = results"
| "checkLoop tz now txs familyGroupId (a # rest) results =
     checkLoop tz now txs familyGroupId rest (results @ [checkAlert tz now txs familyGroupId a])"

definition checkSpendingAlerts ::
  "int \<Rightarrow> int \<Rightarrow> transaction list \<Rightarrow> category list \<Rightarrow> spendingAlert list \<Rightarrow> string
     \<Rightarrow> alertStatus list" where
  "checkSpendingAlerts tz now txs cats alerts familyGroupId =
     checkLoop tz now txs familyGroupId
       (filter sa_isActive (getSpendingAlerts cats alerts familyGroupId)) []"

subsection \<open>createTransaction\<close>

text \<open>
  The codec of an \<^verbatim>\<open>integer\<close> column in mode \<^verbatim>\<open>'timestamp'\<close>: the ORM writes a
  \<^verbatim>\<open>Date\<close> as whole seconds since the epoch, and reads the column back as that many
  seconds.
\<close>

definition mapToDriverValue :: "int \<Rightarrow> int" where
  "mapToDriverValue unix = unix div 1000"

definition mapFromDriverValue :: "int \<Rightarrow> int" where
  "mapFromDriverValue v = v * 1000"

text \<open>
  \<^verbatim>\<open>InsertTransaction\<close>: the fields the caller gives; \<open>it_date\<close> is a \<^verbatim>\<open>Date\<close>, an
  instant in milliseconds.
\<close>

record insertTransaction =
  it_categoryId :: string
  it_amount :: rat
  it_type :: string
  it_date :: int

text \<open>
  \<^verbatim>\<open>createTransaction\<close> inserts one row and returns it; the table is passed and
  returned. \<open>newId\<close> is the identifier \<^verbatim>\<open>crypto.randomUUID()\<close> draws. The family group,
  the user and the category that the row refers to are taken to exist (with a missing one
  the insert raises and writes nothing, which is not modelled).
\<close>

definition createTransaction ::
  "transaction list \<Rightarrow> string \<Rightarrow> string \<Rightarrow> string \<Rightarrow> insertTransaction
     \<Rightarrow> transaction \<times> transaction list" where
  "createTransaction txs newId familyGroupId userId transaction =
     (let newTransaction =
            \<lparr>tx_id = newId,
             tx_familyGroupId = familyGroupId,
             tx_userId = userId,
             tx_categoryId = it_categoryId transaction,
             tx_amount = it_amount transaction,
             tx_type = it_type transaction,
             tx_date = mapToDriverValue (it_date transaction)\<rparr>
      in (newTransaction, txs @ [newTransaction]))"

section \<open>An example ledger\<close>

text \<open>
  Two categories, four rows of transactions of user \<open>u1\<close> in family group \<open>g1\<close>, one row
  of user \<open>u2\<close> in family group \<open>g2\<close>, and four alerts, used to run the queries on
  concrete data. The date columns of the rows hold integers between the bounds that the
  queries compute for March 2024 in the zone UTC.
\<close>

definition exCategories :: "category list" where
  "exCategories =
     [\<lparr>cat_id = ''cA'', cat_familyGroupId = ''g1'', cat_name = ''A'', cat_type = ''expense''\<rparr>,
      \<lparr>cat_id = ''cB'', cat_familyGroupId = ''g1'', cat_name = ''B'', cat_type = ''expense''\<rparr>]"

definition exTransactions :: "transaction list" where
  "exTransactions =
     [\<lparr>tx_id = ''t1'', tx_familyGroupId = ''g1'', tx_userId = ''u1'', tx_categoryId = ''cA'',
       tx_amount = 60, tx_type = ''expense'', tx_date = 1709640000000\<rparr>,
      \<lparr>tx_id = ''t2'', tx_familyGroupId = ''g1'', tx_userId = ''u1'', tx_categoryId = ''cB'',
       tx_amount = 40, tx_type = ''expense'', tx_date = 1710936000000\<rparr>,
      \<lparr>tx_id = ''t3'', tx_familyGroupId = ''g1'', tx_userId = ''u1'', tx_categoryId = ''cA'',
       tx_amount = 500, tx_type = ''income'', tx_date = 1710072000000\<rparr>,
      \<lparr>tx_id = ''t4'', tx_familyGroupId = ''g1'', tx_userId = ''u1'', tx_categoryId = ''cA'',
       tx_amount = 50, tx_type = ''expense'', tx_date = 1711108800000\<rparr>,
      \<lparr>tx_id = ''t5'', tx_familyGroupId = ''g2'', tx_userId = ''u2'', tx_categoryId = ''cB'',
       tx_amount = 7, tx_type = ''expense'', tx_date = 1710936000000\<rparr>]"

definition exAlerts :: "spendingAlert list" where
  "exAlerts =
     [\<lparr>sa_id = ''a1'', sa_familyGroupId = ''g1'', sa_userId = ''u1'', sa_categoryId = None,
       sa_limitAmount = 100, sa_period = ''monthly'', sa_isActive = True, sa_createdAt = 10\<rparr>,
      \<lparr>sa_id = ''a2'', sa_familyGroupId = ''g1'', sa_userId = ''u1'', sa_categoryId = None,
       sa_limitAmount = 300, sa_period = ''monthly'', sa_isActive = False, sa_createdAt = 20\<rparr>,
      \<lparr>sa_id = ''a3'', sa_familyGroupId = ''g1'', sa_userId = ''u1'', sa_categoryId = Some ''cA'',
       sa_limitAmount = 200, sa_period = ''monthly'', sa_isActive = True, sa_createdAt = 30\<rparr>,
      \<lparr>sa_id = ''a4'', sa_familyGroupId = ''g2'', sa_userId = ''u2'', sa_categoryId = None,
       sa_limitAmount = 50, sa_period = ''weekly'', sa_isActive = True, sa_createdAt = 40\<rparr>]"

text \<open>The instant at which the alerts of the example are checked.\<close>

definition exNow :: int where
  "exNow = 1711324800000"

text \<open>
  Two transactions as \<^verbatim>\<open>createTransaction\<close> receives them: an expense of 50 dated
  2024-03-15T12:00:00Z, and one dated Monday 2024-03-11T12:00:00Z. \<open>exWednesday\<close> is
  Wednesday 2024-03-13T12:00:00Z, and \<open>exWeeklyAlert\<close> an active weekly alert of \<open>g1\<close>.
\<close>

definition exInsert :: insertTransaction where
  "exInsert =
     \<lparr>it_categoryId = ''cA'', it_amount = 50, it_type = ''expense'', it_date = 1710504000000\<rparr>"

definition exInsertMonday :: insertTransaction where
  "exInsertMonday =
     \<lparr>it_categoryId = ''cA'', it_amount = 50, it_type = ''expense'', it_date = 1710158400000\<rparr>"

definition exWednesday :: int where
  "exWednesday = 1710331200000"

definition exWeeklyAlert :: spendingAlert where
  "exWeeklyAlert =
     \<lparr>sa_id = ''w1'', sa_familyGroupId = ''g1'', sa_userId = ''u1'', sa_categoryId = None,
      sa_limitAmount = 100, sa_period = ''weekly'', sa_isActive = True, sa_createdAt = 10\<rparr>"

text \<open>
  A ledger written by three calls of \<^verbatim>\<open>createTransaction\<close> for user \<open>u1\<close> of family
  group \<open>g1\<close>: an income of 500 dated 2024-03-10T12:00:00Z, the expense \<open>exInsert\<close> of
  50 in category \<open>cA\<close> dated 2024-03-15T12:00:00Z, and an expense of 30 in category
  \<open>cB\<close> dated 2024-03-16T12:00:00Z.
\<close>

definition exInsertIncome :: insertTransaction where
  "exInsertIncome =
     \<lparr>it_categoryId = ''cA'', it_amount = 500, it_type = ''income'', it_date = 1710072000000\<rparr>"

definition exInsertB :: insertTransaction where
  "exInsertB =
     \<lparr>it_categoryId = ''cB'', it_amount = 30, it_type = ''expense'', it_date = 1710590400000\<rparr>"

definition exCreated :: "transaction list" where
  "exCreated =
     snd (createTransaction
       (snd (createTransaction
         (snd (createTransaction [] ''t1'' ''g1'' ''u1'' exInsertIncome))
         ''t2'' ''g1'' ''u1'' exInsert))
       ''t3'' ''g1'' ''u1'' exInsertB)"








section \<open>Properties\<close>

subsection \<open>Grouped sums and joins\<close>

lemma find_keyed:
  "find (\<lambda>r. fst r = k) (map (\<lambda>k. (k, g k)) ks) = (if k \<in> set ks then Some (k, g k) else None)"
  by (induction ks) auto

lemma sum_list_filter_none:
  "k \<notin> key ` set rows \<Longrightarrow> sum_list (map val (filter (\<lambda>r. key r = k) rows)) = (0::rat)"
  by (induction rows) auto

lemma totalOf_groupSum:
  "totalOf k (groupSum key val rows) = sum_list (map val (filter (\<lambda>r. key r = k) rows))"
proof (cases "k \<in> key ` set rows")
  case True
  then show ?thesis
    by (simp add: totalOf_def groupSum_def find_keyed)
next
  case False
  then show ?thesis
    by (simp add: totalOf_def groupSum_def find_keyed sum_list_filter_none)
qed

lemma group_sum_over:
  "finite A \<Longrightarrow> key ` set rows \<subseteq> A \<Longrightarrow>
     (\<Sum>k\<in>A. sum_list (map val (filter (\<lambda>r. key r = k) rows))) = (sum_list (map val rows) :: rat)"
proof (induction rows)
  case Nil
  then show ?case by simp
next
  case (Cons r rows)
  then have IH: "(\<Sum>k\<in>A. sum_list (map val (filter (\<lambda>r. key r = k) rows))) = sum_list (map val rows)"
    and mem: "key r \<in> A" by auto
  have "(\<Sum>k\<in>A. sum_list (map val (filter (\<lambda>x. key x = k) (r # rows))))
      = (\<Sum>k\<in>A. (if key r = k then val r else 0) + sum_list (map val (filter (\<lambda>x. key x = k) rows)))"
    by (rule sum.cong) auto
  also have "\<dots> = (\<Sum>k\<in>A. (if key r = k then val r else 0)) + sum_list (map val rows)"
    by (simp add: sum.distrib IH)
  also have "(\<Sum>k\<in>A. (if key r = k then val r else 0)) = val r"
    using Cons.prems(1) mem by (simp add: sum.delta')
  finally show ?case by simp
qed

lemma sum_list_groupSum:
  "sum_list (map snd (groupSum key val rows)) = sum_list (map val rows)"
proof -
  have "sum_list (map snd (groupSum key val rows))
      = sum_list (map (\<lambda>k. sum_list (map val (filter (\<lambda>r. key r = k) rows))) (remdups (map key rows)))"
    by (simp add: groupSum_def comp_def)
  also have "\<dots> = (\<Sum>k\<in>set (map key rows). sum_list (map val (filter (\<lambda>r. key r = k) rows)))"
    by (simp add: sum_list_distinct_conv_sum_set)
  also have "\<dots> = sum_list (map val rows)"
    by (rule group_sum_over) auto
  finally show ?thesis .
qed

lemma filter_innerJoin_fst:
  "filter (\<lambda>(x, y). P x) (innerJoin xs ys on) = innerJoin (filter P xs) ys on"
  by (induction xs) (auto simp: innerJoin_def filter_map comp_def)

lemma unique_match:
  "distinct (map f ys) \<Longrightarrow> k \<in> f ` set ys \<Longrightarrow> \<exists>y. filter (\<lambda>y. k = f y) ys = [y]"
proof (induction ys)
  case Nil
  then show ?case by simp
next
  case (Cons a ys)
  show ?case
  proof (cases "k = f a")
    case True
    with Cons.prems have "filter (\<lambda>y. k = f y) ys = []"
      by (auto simp: filter_empty_conv)
    with True show ?thesis by simp
  next
    case False
    with Cons show ?thesis by auto
  qed
qed

lemma at_most_one_match:
  "distinct (map f ys) \<Longrightarrow> filter (\<lambda>y. k = f y) ys = [] \<or> (\<exists>y. filter (\<lambda>y. k = f y) ys = [y])"
  using unique_match[of f ys k] by (cases "k \<in> f ` set ys") (auto simp: filter_empty_conv)

lemma sum_innerJoin_unique:
  "\<forall>x\<in>set xs. \<exists>y. filter (on x) ys = [y] \<Longrightarrow>
     sum_list (map (\<lambda>(x, y). val x) (innerJoin xs ys on)) = (sum_list (map val xs) :: rat)"
  by (induction xs) (auto simp: innerJoin_def)

lemma map_fst_leftJoin:
  "\<forall>x\<in>set xs. filter (on x) ys = [] \<or> (\<exists>y. filter (on x) ys = [y]) \<Longrightarrow>
     map fst (leftJoin xs ys on) = xs"
  by (induction xs) (auto simp: leftJoin_def)

lemma leftJoin_fst_mem:
  "(a, c) \<in> set (leftJoin xs ys on) \<Longrightarrow> a \<in> set xs"
  by (induction xs) (auto simp: leftJoin_def split: list.splits)

subsection \<open>Monthly balance\<close>

lemma income_getMonthlyBalance:
  "income (getMonthlyBalance tz txs userId year month)
     = sum_list (map tx_amount (filter (\<lambda>t. tx_type t = ''income'')
         (monthlyRows tz txs userId year month)))"
  by (simp add: getMonthlyBalance_def Let_def totalOf_groupSum)

lemma expenses_getMonthlyBalance:
  "expenses (getMonthlyBalance tz txs userId year month)
     = sum_list (map tx_amount (filter (\<lambda>t. tx_type t = ''expense'')
         (monthlyRows tz txs userId year month)))"
  by (simp add: getMonthlyBalance_def Let_def totalOf_groupSum)

lemma balance_getMonthlyBalance:
  "balance (getMonthlyBalance tz txs userId year month)
     = income (getMonthlyBalance tz txs userId year month)
       - expenses (getMonthlyBalance tz txs userId year month)"
  by (simp add: getMonthlyBalance_def Let_def)

text \<open>
  What \<open>getMonthlyBalance\<close> makes of the rows its \<^verbatim>\<open>where\<close> clause selects
  (\<open>monthlyRows\<close>): the sums of their amounts by type, and the difference of the two.
\<close>

lemma getMonthlyBalance_sums:
  "income (getMonthlyBalance tz txs userId year month)
     = sum_list (map tx_amount (filter (\<lambda>t. tx_type t = ''income'')
         (monthlyRows tz txs userId year month)))
   \<and> expenses (getMonthlyBalance tz txs userId year month)
     = sum_list (map tx_amount (filter (\<lambda>t. tx_type t = ''expense'')
         (monthlyRows tz txs userId year month)))
   \<and> balance (getMonthlyBalance tz txs userId year month)
     = income (getMonthlyBalance tz txs userId year month)
       - expenses (getMonthlyBalance tz txs userId year month)"
  using income_getMonthlyBalance expenses_getMonthlyBalance balance_getMonthlyBalance
  by blast

subsection \<open>Rounding to doubles\<close>





lemma MAX_VALUE_eq: "MAX_VALUE = (2 ^ 53 - 1) * 2 ^ 971"
  by (simp add: MAX_VALUE_def)






subsection \<open>Category percentages\<close>


















subsection \<open>Spending alerts\<close>

lemma checkLoop_map:
  "checkLoop tz now txs g as results = results @ map (checkAlert tz now txs g) as"
  by (induction as arbitrary: results) auto

lemma checkSpendingAlerts_map:
  "checkSpendingAlerts tz now txs cats alerts g =
     map (checkAlert tz now txs g) (filter sa_isActive (getSpendingAlerts cats alerts g))"
  by (simp add: checkSpendingAlerts_def checkLoop_map)

lemma alert_checkAlert [simp]:
  "alert (checkAlert tz now txs g a) = a"
  "currentSpending (checkAlert tz now txs g a) = currentSpendingOf tz now txs g a"
  "percentageUsed (checkAlert tz now txs g a)
     = percentageUsedOf (currentSpendingOf tz now txs g a) (sa_limitAmount a)"
  by (simp_all add: checkAlert_def Let_def)




lemma truncate_extend:
  "spendingAlert.truncate (spendingAlert.extend a \<lparr>sa_category = c\<rparr>) = (a :: spendingAlert)"
  by (cases a) (simp add: spendingAlert.defs)

lemma extend_fields:
  "sa_isActive (spendingAlert.extend a \<lparr>sa_category = c\<rparr>) = sa_isActive a"
  "sa_familyGroupId (spendingAlert.extend a \<lparr>sa_category = c\<rparr>) = sa_familyGroupId a"
  by (simp_all add: spendingAlert.defs)

lemma truncate_active_rows:
  "map spendingAlert.truncate (filter sa_isActive
          (map (\<lambda>(a, c). spendingAlert.extend a \<lparr>sa_category = c\<rparr>)
             (filter (\<lambda>(a, c). sa_familyGroupId a = g) L)))
      = filter (\<lambda>a. sa_isActive a \<and> sa_familyGroupId a = g) (map fst L)"
  by (induction L) (auto simp: truncate_extend extend_fields)

lemma getSpendingAlerts_sound:
  assumes "r \<in> set (getSpendingAlerts cats alerts g)"
  shows "spendingAlert.truncate r \<in> set alerts \<and> sa_familyGroupId r = g"
proof -
  from assms obtain a c where ac: "(a, c) \<in> set (leftJoin alerts cats (\<lambda>a c. sa_categoryId a = Some (cat_id c)))"
    and g: "sa_familyGroupId a = g" and r: "r = spendingAlert.extend a \<lparr>sa_category = c\<rparr>"
    by (auto simp: getSpendingAlerts_def)
  from ac have "a \<in> set alerts"
    by (rule leftJoin_fst_mem)
  with g r show ?thesis
    by (simp add: truncate_extend extend_fields)
qed

lemma getSpendingAlerts_mset:
  assumes "distinct (map cat_id cats)"
  shows "mset (map spendingAlert.truncate (filter sa_isActive (getSpendingAlerts cats alerts g)))
           = mset (filter (\<lambda>a. sa_isActive a \<and> sa_familyGroupId a = g) alerts)"
proof -
  let ?on = "\<lambda>a c. sa_categoryId a = Some (cat_id c)"
  let ?LJ = "leftJoin alerts cats ?on"
  have one: "\<forall>a\<in>set alerts. filter (?on a) cats = [] \<or> (\<exists>y. filter (?on a) cats = [y])"
  proof
    fix a
    show "filter (?on a) cats = [] \<or> (\<exists>y. filter (?on a) cats = [y])"
    proof (cases "sa_categoryId a")
      case None
      then show ?thesis by simp
    next
      case (Some k)
      with at_most_one_match[OF assms, of k] show ?thesis by simp
    qed
  qed
  have fst: "map fst ?LJ = alerts"
    by (rule map_fst_leftJoin[OF one])
  have "mset (map spendingAlert.truncate (filter sa_isActive (getSpendingAlerts cats alerts g)))
      = mset (map spendingAlert.truncate (filter sa_isActive
          (map (\<lambda>(a, c). spendingAlert.extend a \<lparr>sa_category = c\<rparr>)
             (filter (\<lambda>(a, c). sa_familyGroupId a = g) ?LJ))))"
    by (simp add: getSpendingAlerts_def mset_filter)
  also have "map spendingAlert.truncate (filter sa_isActive
          (map (\<lambda>(a, c). spendingAlert.extend a \<lparr>sa_category = c\<rparr>)
             (filter (\<lambda>(a, c). sa_familyGroupId a = g) ?LJ)))
      = filter (\<lambda>a. sa_isActive a \<and> sa_familyGroupId a = g) (map fst ?LJ)"
    by (rule truncate_active_rows)
  finally show ?thesis by (simp add: fst)
qed

text \<open>
  C4. Every entry of \<open>checkSpendingAlerts\<close> is for an active alert of the family group
  asked for, and, the identifiers of the categories being distinct (the primary key of the
  table), the alerts of the entries are exactly the active alerts of that family group,
  each once: an inactive alert has no entry.
\<close>

theorem checkSpendingAlerts_active_only:
  assumes "distinct (map cat_id cats)"
  shows "(\<forall>r\<in>set (checkSpendingAlerts tz now txs cats alerts g).
            sa_isActive (alert r) \<and> sa_familyGroupId (alert r) = g)
         \<and> mset (map (\<lambda>r. spendingAlert.truncate (alert r))
                  (checkSpendingAlerts tz now txs cats alerts g))
             = mset (filter (\<lambda>a. sa_isActive a \<and> sa_familyGroupId a = g) alerts)"
proof -
  have "map (\<lambda>r. spendingAlert.truncate (alert r)) (checkSpendingAlerts tz now txs cats alerts g)
      = map spendingAlert.truncate (filter sa_isActive (getSpendingAlerts cats alerts g))"
    by (simp add: checkSpendingAlerts_map comp_def)
  moreover have "\<forall>r\<in>set (checkSpendingAlerts tz now txs cats alerts g).
            sa_isActive (alert r) \<and> sa_familyGroupId (alert r) = g"
    by (auto simp: checkSpendingAlerts_map dest: getSpendingAlerts_sound)
  ultimately show ?thesis
    using getSpendingAlerts_mset[OF assms] by simp
qed

theorem checkSpendingAlerts_active_only_witness:
  "distinct (map cat_id exCategories)
   \<and> mset (map (\<lambda>r. spendingAlert.truncate (alert r))
            (checkSpendingAlerts 0 exNow exTransactions exCategories exAlerts ''g1''))
       = mset [exAlerts ! 0, exAlerts ! 2]"
proof -
  have d: "distinct (map cat_id exCategories)" by code_simp
  have f: "filter (\<lambda>a. sa_isActive a \<and> sa_familyGroupId a = ''g1'') exAlerts = [exAlerts ! 0, exAlerts ! 2]"
    by code_simp
  from checkSpendingAlerts_active_only[OF d, of 0 exNow exTransactions exAlerts "''g1''"] d f
  show ?thesis by simp
qed

text \<open>
  What \<open>currentSpendingOf\<close> sums: the amounts of the rows of the family group of type
  expense that the two comparisons of the window select, restricted to the category of the
  alert when it has one (a non-empty identifier).
\<close>

lemma currentSpending_category_filter:
  "(\<forall>r\<in>set (checkSpendingAlerts tz now txs cats alerts g).
       currentSpending r = currentSpendingOf tz now txs g (alert r))
   \<and> (sa_categoryId a = Some c \<and> c \<noteq> [] \<longrightarrow>
        currentSpendingOf tz now txs g a
          = sum_list (map tx_amount (filter
              (\<lambda>t. tx_familyGroupId t = g \<and> tx_type t = ''expense''
                    \<and> sql_ge (tx_date t) (alertStart tz now (sa_period a))
                    \<and> sql_le (tx_date t) (Some now)
                    \<and> tx_categoryId t = c) txs)))
   \<and> (sa_categoryId a = None \<longrightarrow>
        currentSpendingOf tz now txs g a
          = sum_list (map tx_amount (filter
              (\<lambda>t. tx_familyGroupId t = g \<and> tx_type t = ''expense''
                    \<and> sql_ge (tx_date t) (alertStart tz now (sa_period a))
                    \<and> sql_le (tx_date t) (Some now)) txs)))
   \<and> currentSpendingOf tz now (filter (\<lambda>t. tx_type t = ''expense'') txs) g a
        = currentSpendingOf tz now txs g a"
proof -
  have 1: "\<forall>r\<in>set (checkSpendingAlerts tz now txs cats alerts g).
       currentSpending r = currentSpendingOf tz now txs g (alert r)"
    by (auto simp: checkSpendingAlerts_map)
  have 2: "sa_categoryId a = Some c \<and> c \<noteq> [] \<longrightarrow>
        currentSpendingOf tz now txs g a
          = sum_list (map tx_amount (filter
              (\<lambda>t. tx_familyGroupId t = g \<and> tx_type t = ''expense''
                    \<and> sql_ge (tx_date t) (alertStart tz now (sa_period a))
                    \<and> sql_le (tx_date t) (Some now)
                    \<and> tx_categoryId t = c) txs))"
    by (simp add: currentSpendingOf_def whereClause_def truthy_def Let_def)
  have 3: "sa_categoryId a = None \<longrightarrow>
        currentSpendingOf tz now txs g a
          = sum_list (map tx_amount (filter
              (\<lambda>t. tx_familyGroupId t = g \<and> tx_type t = ''expense''
                    \<and> sql_ge (tx_date t) (alertStart tz now (sa_period a))
                    \<and> sql_le (tx_date t) (Some now)) txs))"
    by (simp add: currentSpendingOf_def whereClause_def truthy_def Let_def)
  have 4: "currentSpendingOf tz now (filter (\<lambda>t. tx_type t = ''expense'') txs) g a
        = currentSpendingOf tz now txs g a"
  proof -
    have "filter (\<lambda>t. list_all (\<lambda>cond. cond t) (whereClause tz now g a))
            (filter (\<lambda>t. tx_type t = ''expense'') txs)
        = filter (\<lambda>t. list_all (\<lambda>cond. cond t) (whereClause tz now g a)) txs"
      unfolding filter_filter
      by (rule filter_cong) (auto simp: whereClause_def Let_def)
    then show ?thesis by (simp add: currentSpendingOf_def)
  qed
  from 1 2 3 4 show ?thesis by blast
qed

subsection \<open>The calendar\<close>

text \<open>
  The getters invert \<open>MakeDay\<close>: the year found for a day of the year \<open>y\<close> is \<open>y\<close>, and
  the first and last days of a month are read back as days of that month.
\<close>

lemma div_bounds4: "4 * ((x::int) div 4) \<le> x \<and> x \<le> 4 * (x div 4) + 3"
  by presburger

lemma div_bounds100: "100 * ((x::int) div 100) \<le> x \<and> x \<le> 100 * (x div 100) + 99"
  by presburger

lemma div_bounds400: "400 * ((x::int) div 400) \<le> x \<and> x \<le> 400 * (x div 400) + 399"
  by presburger

lemma year_estimate:
  assumes "0 \<le> k" and "k \<le> 365"
  shows "y - 1971 \<le> ((DayFromYear y + k) * 400) div 146097
       \<and> ((DayFromYear y + k) * 400) div 146097 \<le> y - 1969"
proof -
  define a where "a = (y - 1969) div 4"
  define b where "b = (y - 1901) div 100"
  define c where "c = (y - 1601) div 400"
  define n where "n = (DayFromYear y + k) * 400"
  define q where "q = n div 146097"
  define r where "r = n mod 146097"
  have a: "4 * a \<le> y - 1969" "y - 1969 \<le> 4 * a + 3"
    unfolding a_def using div_bounds4[of "y - 1969"] by simp_all
  have b: "100 * b \<le> y - 1901" "y - 1901 \<le> 100 * b + 99"
    unfolding b_def using div_bounds100[of "y - 1901"] by simp_all
  have c: "400 * c \<le> y - 1601" "y - 1601 \<le> 400 * c + 399"
    unfolding c_def using div_bounds400[of "y - 1601"] by simp_all
  have n: "n = 146000 * y - 287620000 + 400 * a - 400 * b + 400 * c + 400 * k"
    by (simp add: n_def DayFromYear_def a_def b_def c_def algebra_simps)
  have qr: "n = 146097 * q + r" "0 \<le> r" "r < 146097"
    by (simp_all add: q_def r_def)
  have nlo: "146097 * y - 287811596 \<le> n" using a b c n assms by linarith
  have nhi: "n \<le> 146097 * y - 287664501" using a b c n assms by linarith
  have lo: "y - 1971 \<le> q" using nlo qr by linarith
  have hi: "q \<le> y - 1969" using nhi qr by linarith
  from lo hi show ?thesis by (simp add: q_def n_def)
qed

lemma div_step:
  fixes x c :: int
  assumes "1 < c"
  shows "(x + 1) div c = x div c + (if (x + 1) mod c = 0 then 1 else 0)"
proof -
  define q where "q = x div c"
  define r where "r = x mod c"
  have x: "x = c * q + r" and r: "0 \<le> r" "r < c"
    using assms by (simp_all add: q_def r_def)
  show ?thesis
  proof (cases "r = c - 1")
    case True
    then have eq: "x + 1 = c * (q + 1) + 0" using x by (simp add: algebra_simps)
    have "(x + 1) div c = q + 1"
      by (rule int_div_pos_eq[OF eq]) (use assms in simp_all)
    moreover have "(x + 1) mod c = 0"
      by (rule int_mod_pos_eq[OF eq]) (use assms in simp_all)
    ultimately show ?thesis by (simp add: q_def)
  next
    case False
    with r have r1: "0 \<le> r + 1" "r + 1 < c" by simp_all
    have eq: "x + 1 = c * q + (r + 1)" using x by simp
    have "(x + 1) div c = q"
      by (rule int_div_pos_eq[OF eq r1])
    moreover have "(x + 1) mod c = r + 1"
      by (rule int_mod_pos_eq[OF eq r1])
    ultimately show ?thesis using r by (simp add: q_def)
  qed
qed

lemma step4: "((y::int) - 1968) div 4 = (y - 1969) div 4 + (if y mod 4 = 0 then 1 else 0)"
proof -
  have "(y - 1968) mod 4 = (y + (- 492) * 4) mod 4" by simp
  also have "\<dots> = y mod 4" by (rule mod_mult_self1)
  finally have m: "(y - 1968) mod 4 = y mod 4" .
  from div_step[of 4 "y - 1969"] m show ?thesis by simp
qed

lemma step100: "((y::int) - 1900) div 100 = (y - 1901) div 100 + (if y mod 100 = 0 then 1 else 0)"
proof -
  have "(y - 1900) mod 100 = (y + (- 19) * 100) mod 100" by simp
  also have "\<dots> = y mod 100" by (rule mod_mult_self1)
  finally have m: "(y - 1900) mod 100 = y mod 100" .
  from div_step[of 100 "y - 1901"] m show ?thesis by simp
qed

lemma step400: "((y::int) - 1600) div 400 = (y - 1601) div 400 + (if y mod 400 = 0 then 1 else 0)"
proof -
  have "(y - 1600) mod 400 = (y + (- 4) * 400) mod 400" by simp
  also have "\<dots> = y mod 400" by (rule mod_mult_self1)
  finally have m: "(y - 1600) mod 400 = y mod 400" .
  from div_step[of 400 "y - 1601"] m show ?thesis by simp
qed

lemma mod_chain:
  "(y::int) mod 400 = 0 \<Longrightarrow> y mod 100 = 0"
  "(y::int) mod 100 = 0 \<Longrightarrow> y mod 4 = 0"
proof -
  assume "y mod 400 = 0"
  then have "400 dvd y" by (simp add: mod_eq_0_iff_dvd)
  then have "100 dvd y" by (rule dvd_trans[rotated]) simp
  then show "y mod 100 = 0" by (simp add: mod_eq_0_iff_dvd)
next
  assume "y mod 100 = 0"
  then have "100 dvd y" by (simp add: mod_eq_0_iff_dvd)
  then have "4 dvd y" by (rule dvd_trans[rotated]) simp
  then show "y mod 4 = 0" by (simp add: mod_eq_0_iff_dvd)
qed

lemma DayFromYear_Suc: "DayFromYear (y + 1) = DayFromYear y + DaysInYear y"
proof -
  have "DayFromYear (y + 1)
      = 365 * (y - 1969) + (y - 1968) div 4 - (y - 1900) div 100 + (y - 1600) div 400"
    by (simp add: DayFromYear_def)
  also have "\<dots> = DayFromYear y + 365 + (if y mod 4 = 0 then 1 else 0)
                 - (if y mod 100 = 0 then 1 else 0) + (if y mod 400 = 0 then 1 else 0)"
    unfolding step4 step100 step400 DayFromYear_def by simp
  also have "\<dots> = DayFromYear y + DaysInYear y"
    using mod_chain[of y] by (auto simp: DaysInYear_def)
  finally show ?thesis .
qed

lemma DaysInYear_cases: "DaysInYear y = 365 \<or> DaysInYear y = 366"
  by (simp add: DaysInYear_def)

lemma YearFromDay_correct:
  assumes "0 \<le> k" and "k < DaysInYear y"
  shows "YearFromDay (DayFromYear y + k) = y"
proof -
  let ?d = "DayFromYear y + k"
  define y0 where "y0 = 1970 + (?d * 400) div 146097"
  from assms DaysInYear_cases[of y] have k: "k \<le> 365" by auto
  from year_estimate[OF assms(1) k, of y] have y0: "y - 1 \<le> y0" "y0 \<le> y + 1"
    by (simp_all add: y0_def)
  have up: "DayFromYear (y + 1) = DayFromYear y + DaysInYear y" by (rule DayFromYear_Suc)
  have upup: "DayFromYear (y + 2) = DayFromYear (y + 1) + DaysInYear (y + 1)"
    using DayFromYear_Suc[of "y + 1"] by (simp add: add.commute)
  have down: "DayFromYear y = DayFromYear (y - 1) + DaysInYear (y - 1)"
    using DayFromYear_Suc[of "y - 1"] by simp
  have pos: "0 < DaysInYear (y - 1)" using DaysInYear_cases[of "y - 1"] by auto
  have pos1: "0 < DaysInYear (y + 1)" using DaysInYear_cases[of "y + 1"] by auto
  consider "y0 = y - 1" | "y0 = y" | "y0 = y + 1" using y0 by linarith
  then have "(if ?d < DayFromYear y0 then y0 - 1
              else if DayFromYear (y0 + 1) \<le> ?d then y0 + 1 else y0) = y"
  proof cases
    case 1
    then show ?thesis using down pos assms by simp
  next
    case 2
    then show ?thesis using up assms by simp
  next
    case 3
    then show ?thesis using up upup pos1 assms by (simp add: add.commute)
  qed
  then show ?thesis unfolding YearFromDay_def Let_def y0_def .
qed

lemma InLeapYear_cases: "InLeapYear y = 0 \<or> InLeapYear y = 1"
  by (simp add: InLeapYear_def)

lemma DaysInYear_leap: "DaysInYear y = 365 + InLeapYear y"
  using DaysInYear_cases[of y] by (auto simp: InLeapYear_def)

lemma month_cases:
  assumes "0 \<le> mn" "mn \<le> (11::int)"
  shows "mn = 0 \<or> mn = 1 \<or> mn = 2 \<or> mn = 3 \<or> mn = 4 \<or> mn = 5 \<or> mn = 6 \<or> mn = 7 \<or> mn = 8
         \<or> mn = 9 \<or> mn = 10 \<or> mn = 11"
  using assms by arith

lemma MonthFromDayWithinYear_start:
  assumes "0 \<le> mn" "mn \<le> 11" "l = 0 \<or> l = 1"
  shows "MonthFromDayWithinYear l (monthStart l mn) = mn"
  using assms(3) month_cases[OF assms(1,2)]
  by (elim disjE; simp add: MonthFromDayWithinYear_def monthStart_def)

lemma MonthFromDayWithinYear_end:
  assumes "0 \<le> mn" "mn \<le> 11" "l = 0 \<or> l = 1"
  shows "MonthFromDayWithinYear l ((if mn = 11 then 365 + l else monthStart l (mn + 1)) - 1) = mn"
  using assms(3) month_cases[OF assms(1,2)]
  by (elim disjE; simp add: MonthFromDayWithinYear_def monthStart_def)

lemma first_day_of_month:
  assumes "0 \<le> mn" "mn \<le> 11"
    and d: "d = DayFromYear y + monthStart (InLeapYear y) mn"
  shows "YearFromDay d = y \<and> MonthFromDay d = mn \<and> DateFromDay d = 1"
proof -
  define l where "l = InLeapYear y"
  have l: "l = 0 \<or> l = 1" unfolding l_def by (rule InLeapYear_cases)
  have k: "0 \<le> monthStart l mn" "monthStart l mn < DaysInYear y"
    using l month_cases[OF assms(1,2)]
    by (elim disjE; simp add: monthStart_def DaysInYear_leap l_def[symmetric])+
  have yr: "YearFromDay d = y"
    unfolding d l_def[symmetric] by (rule YearFromDay_correct[OF k])
  have "d - DayFromYear y = monthStart l mn" by (simp add: d l_def)
  then have mo: "MonthFromDay d = mn"
    using MonthFromDayWithinYear_start[OF assms(1,2) l]
    by (simp add: MonthFromDay_def Let_def yr l_def[symmetric])
  have "DateFromDay d = d - DayFromYear y - monthStart (InLeapYear y) mn + 1"
    by (simp only: DateFromDay_def Let_def yr mo)
  then have "DateFromDay d = 1" by (simp add: d)
  with yr mo show ?thesis by simp
qed

lemma last_day_of_month:
  assumes "0 \<le> mn" "mn \<le> 11"
    and d: "d = DayFromYear y
                + (if mn = 11 then DaysInYear y else monthStart (InLeapYear y) (mn + 1)) - 1"
  shows "YearFromDay d = y \<and> MonthFromDay d = mn"
proof -
  define l where "l = InLeapYear y"
  define k where "k = (if mn = 11 then DaysInYear y else monthStart l (mn + 1)) - 1"
  have l: "l = 0 \<or> l = 1" unfolding l_def by (rule InLeapYear_cases)
  have k: "0 \<le> k" "k < DaysInYear y"
    using l month_cases[OF assms(1,2)]
    by (elim disjE; simp add: k_def monthStart_def DaysInYear_leap l_def[symmetric])+
  have dk: "d = DayFromYear y + k" by (simp add: d k_def l_def)
  have yr: "YearFromDay d = y"
    unfolding dk by (rule YearFromDay_correct[OF k])
  have "d - DayFromYear y = (if mn = 11 then 365 + l else monthStart l (mn + 1)) - 1"
    by (simp add: dk k_def DaysInYear_leap l_def)
  then have mo: "MonthFromDay d = mn"
    using MonthFromDayWithinYear_end[OF assms(1,2) l]
    by (simp add: MonthFromDay_def Let_def yr l_def[symmetric])
  from yr mo show ?thesis by simp
qed

lemma Day_MakeDate:
  assumes "0 \<le> t" "t < msPerDay"
  shows "Day (MakeDate n t) = n" and "MakeDate n t mod msPerDay = t"
proof -
  have eq: "MakeDate n t = msPerDay * n + t" by (simp add: MakeDate_def)
  show "Day (MakeDate n t) = n"
    unfolding Day_def by (rule int_div_pos_eq[OF eq assms])
  show "MakeDate n t mod msPerDay = t"
    by (rule int_mod_pos_eq[OF eq assms])
qed

text \<open>
  The bounds of the window of a month, in the instants of the server, for a month from 1
  to 12 and a year outside 0 to 99: \<open>s\<close> is the local midnight that begins the first day
  of the month, and \<open>e\<close> is 23:59:59 of its last day, one second before the first day of
  the following month begins.
\<close>

lemma month_window_bounds:
  assumes m: "1 \<le> month" "month \<le> 12" and y: "year < 0 \<or> 99 < year"
    and s: "newDate tz year (month - 1) 1 0 0 0 = Some s"
    and e: "newDate tz year month 0 23 59 59 = Some e"
  shows "getFullYear tz s = year \<and> getMonth tz s = month - 1 \<and> getDate tz s = 1
         \<and> (s + tz) mod msPerDay = 0
         \<and> getFullYear tz e = year \<and> getMonth tz e = month - 1
         \<and> (e + tz) mod msPerDay = 86399000
         \<and> getDate tz (e + 1000) = 1 \<and> (e + 1000 + tz) mod msPerDay = 0"
proof -
  have D: "msPerDay = 86400000" by (simp add: msPerDay_def)
  have m0: "0 \<le> month - 1" "month - 1 \<le> 11" using m by simp_all
  have dm: "(month - 1) div 12 = 0" "(month - 1) mod 12 = month - 1"
    using m0 by simp_all
  define N where "N = DayFromYear year + monthStart (InLeapYear year) (month - 1)"
  have mkN: "MakeDay year (month - 1) 1 = N"
    by (simp add: MakeDay_def Let_def dm N_def)
  from s y have s_eq: "s + tz = MakeDate N 0"
    by (auto simp: newDate_def Let_def TimeClip_def mkN MakeTime_def split: if_splits)
  have dayS: "Day (s + tz) = N" and modS: "(s + tz) mod msPerDay = 0"
    unfolding s_eq by (rule Day_MakeDate; simp add: D)+
  from first_day_of_month[OF m0 N_def]
  have first: "YearFromDay N = year" "MonthFromDay N = month - 1" "DateFromDay N = 1"
    by simp_all
  define ym where "ym = year + month div 12"
  define mn where "mn = month mod 12"
  define M where "M = DayFromYear ym + monthStart (InLeapYear ym) mn"
  have mn: "0 \<le> mn" "mn \<le> 11" by (simp_all add: mn_def)
  have mkM: "MakeDay year month 0 = M - 1" "MakeDay year month 1 = M"
    by (simp_all add: MakeDay_def Let_def ym_def mn_def M_def)
  from e y have e_eq: "e + tz = MakeDate (M - 1) 86399000"
    by (auto simp: newDate_def Let_def TimeClip_def mkM MakeTime_def split: if_splits)
  have dayE: "Day (e + tz) = M - 1" and modE: "(e + tz) mod msPerDay = 86399000"
    unfolding e_eq by (rule Day_MakeDate; simp add: D)+
  have e1_eq: "e + 1000 + tz = MakeDate M 0"
    using e_eq by (simp add: MakeDate_def D algebra_simps)
  have dayE1: "Day (e + 1000 + tz) = M" and modE1: "(e + 1000 + tz) mod msPerDay = 0"
    unfolding e1_eq by (rule Day_MakeDate; simp add: D)+
  from first_day_of_month[OF mn M_def] have nextFirst: "DateFromDay M = 1" by simp
  have last: "M - 1 = DayFromYear year
                + (if month - 1 = 11 then DaysInYear year
                   else monthStart (InLeapYear year) (month - 1 + 1)) - 1"
  proof (cases "month = 12")
    case True
    then have "ym = year + 1" "mn = 0" by (simp_all add: ym_def mn_def)
    then show ?thesis using True by (simp add: M_def monthStart_def DayFromYear_Suc)
  next
    case False
    with m have "month div 12 = 0" "month mod 12 = month" by simp_all
    then have "ym = year" "mn = month" by (simp_all add: ym_def mn_def)
    then show ?thesis using False by (simp add: M_def)
  qed
  from last_day_of_month[OF m0 last]
  have lastDay: "YearFromDay (M - 1) = year" "MonthFromDay (M - 1) = month - 1" by simp_all
  show ?thesis
    using first lastDay nextFirst modS modE modE1
    by (simp add: getFullYear_def getMonth_def getDate_def dayS dayE dayE1)
qed

subsection \<open>The windows and the date column\<close>

text \<open>
  The start of the window of a weekly alert, in the instants of the server: the local
  midnight that begins the Sunday on or before \<open>now\<close>.
\<close>

lemma weekly_start_local:
  assumes "alertStart tz now ''weekly'' = Some s"
  shows "getDay tz s = 0 \<and> (s + tz) mod msPerDay = 0 \<and> s \<le> now \<and> now < s + 7 * msPerDay"
proof -
  define k where "k = (now + tz) div msPerDay"
  define w where "w = (k + 4) mod 7"
  have w: "0 \<le> w" "w \<le> 6" by (simp_all add: w_def)
  have D: "msPerDay = 86400000" by (simp add: msPerDay_def)
  have shift: "(now - 86400000 * w + tz) div msPerDay = k - w"
  proof -
    have "(now + tz + (- w) * 86400000) div 86400000 = - w + (now + tz) div 86400000"
      by (rule div_mult_self1) simp
    moreover have "now - 86400000 * w + tz = now + tz + (- w) * 86400000"
      by simp
    ultimately show ?thesis
      by (simp only: k_def D)
  qed
  from assms have s: "s = (k - w) * msPerDay - tz"
    by (auto simp: alertStart_def Let_def setHours0_def TimeClip_def getDay_def Day_def
        MakeDate_def MakeTime_def k_def[symmetric] w_def[symmetric] shift
        split: if_splits option.splits)
  have day: "(s + tz) div msPerDay = k - w" by (simp add: s D)
  have "(k - w + 4) mod 7 = 0"
    unfolding w_def by presburger
  then have a: "getDay tz s = 0" by (simp add: getDay_def Day_def day)
  have b: "(s + tz) mod msPerDay = 0" by (simp add: s)
  have lo: "k * msPerDay \<le> now + tz" and hi: "now + tz < (k + 1) * msPerDay"
    unfolding k_def D by (simp_all add: algebra_simps) 
  have c: "s \<le> now" using lo w by (simp add: s D algebra_simps)
  have d: "now < s + 7 * msPerDay" using hi w by (simp add: s D algebra_simps)
  from a b c d show ?thesis by blast
qed

text \<open>
  C6. The bounds of the window of March 2024 (zone UTC) are the first instant of the month
  and 23:59:59 of its last day, in milliseconds. \<open>createTransaction\<close> writes the date of a
  transaction in seconds, and the queries compare that column with the bounds in
  milliseconds: an expense dated 2024-03-15T12:00:00Z is missing from both reports of
  March 2024, and is counted by the report of January 1970.
\<close>

theorem month_window_misses_created_transaction:
  "newDate 0 2024 2 1 0 0 0 = Some 1709251200000
   \<and> newDate 0 2024 3 0 23 59 59 = Some 1711929599000
   \<and> it_date exInsert = 1710504000000
   \<and> tx_date (fst (createTransaction [] ''t1'' ''g1'' ''u1'' exInsert)) = 1710504000
   \<and> mapFromDriverValue (tx_date (fst (createTransaction [] ''t1'' ''g1'' ''u1'' exInsert)))
       = 1710504000000
   \<and> getMonthlyBalance 0 (snd (createTransaction [] ''t1'' ''g1'' ''u1'' exInsert)) ''u1'' 2024 3
       = \<lparr>income = 0, expenses = 0, balance = 0\<rparr>
   \<and> getCategoryExpenses 0 (snd (createTransaction [] ''t1'' ''g1'' ''u1'' exInsert)) exCategories
       ''u1'' 2024 3 = []
   \<and> getMonthlyBalance 0 (snd (createTransaction [] ''t1'' ''g1'' ''u1'' exInsert)) ''u1'' 1970 1
       = \<lparr>income = 0, expenses = 50, balance = - 50\<rparr>"
  by code_simp

text \<open>
  C7. Checked on Wednesday 2024-03-13T12:00:00Z (zone UTC), the window of a weekly alert
  starts on Sunday 2024-03-10 at 00:00:00, in milliseconds. An expense of 50 dated Monday
  2024-03-11T12:00:00Z, written by \<open>createTransaction\<close> in seconds, is not counted: the
  spending of the alert is 0.
\<close>

theorem weekly_window_misses_created_transaction:
  "getDay 0 exWednesday = 3
   \<and> alertStart 0 exWednesday ''weekly'' = Some 1710028800000
   \<and> it_date exInsertMonday = 1710158400000
   \<and> tx_date (fst (createTransaction [] ''t1'' ''g1'' ''u1'' exInsertMonday)) = 1710158400
   \<and> mapFromDriverValue (tx_date (fst (createTransaction [] ''t1'' ''g1'' ''u1'' exInsertMonday)))
       = 1710158400000
   \<and> map currentSpending
        (checkSpendingAlerts 0 exWednesday
           (snd (createTransaction [] ''t1'' ''g1'' ''u1'' exInsertMonday))
           exCategories [exWeeklyAlert] ''g1'') = [0]"
  by code_simp

text \<open>
  C1. The three transactions of \<open>exCreated\<close> are dated between the bounds of March 2024
  (zone UTC): an income of 500 and expenses of 50 and 30 of user \<open>u1\<close>. The sums over the
  month are 500, 80 and 420. \<open>getMonthlyBalance\<close> for March 2024 returns income 0,
  expenses 0 and balance 0: the date column holds seconds and is compared with the bounds
  in milliseconds.
\<close>

theorem monthly_balance_misses_month_of_march:
  "newDate 0 2024 2 1 0 0 0 = Some 1709251200000
   \<and> newDate 0 2024 3 0 23 59 59 = Some 1711929599000
   \<and> map it_date [exInsertIncome, exInsert, exInsertB]
       = [1710072000000, 1710504000000, 1710590400000]
   \<and> map (\<lambda>t. (tx_userId t, tx_type t, tx_amount t, mapFromDriverValue (tx_date t))) exCreated
       = [(''u1'', ''income'', 500, 1710072000000),
          (''u1'', ''expense'', 50, 1710504000000),
          (''u1'', ''expense'', 30, 1710590400000)]
   \<and> map tx_date exCreated = [1710072000, 1710504000, 1710590400]
   \<and> getMonthlyBalance 0 exCreated ''u1'' 2024 3 = \<lparr>income = 0, expenses = 0, balance = 0\<rparr>"
  by code_simp

text \<open>
  C5. Checked on 2024-03-25T00:00:00Z (zone UTC), the window of a monthly alert starts on
  2024-03-01 at 00:00:00 and holds the two expenses of \<open>exCreated\<close>: 50 in category \<open>cA\<close>
  and 30 in category \<open>cB\<close>. The alert \<open>a3\<close> on category \<open>cA\<close> should show a spending of
  50 and the alert \<open>a1\<close> with no category a spending of 80; \<open>checkSpendingAlerts\<close> returns
  0 for both, the date column being compared in seconds with bounds in milliseconds.
\<close>

theorem alert_spending_misses_month_of_march:
  "alertStart 0 exNow ''monthly'' = Some 1709251200000
   \<and> exNow = 1711324800000
   \<and> map (\<lambda>t. (tx_familyGroupId t, tx_type t, tx_categoryId t, tx_amount t,
                  mapFromDriverValue (tx_date t))) exCreated
       = [(''g1'', ''income'', ''cA'', 500, 1710072000000),
          (''g1'', ''expense'', ''cA'', 50, 1710504000000),
          (''g1'', ''expense'', ''cB'', 30, 1710590400000)]
   \<and> map (\<lambda>r. (sa_id (alert r), sa_categoryId (alert r), sa_period (alert r), currentSpending r))
         (checkSpendingAlerts 0 exNow exCreated exCategories exAlerts ''g1'')
       = [(''a3'', Some ''cA'', ''monthly'', 0), (''a1'', None, ''monthly'', 0)]"
  by code_simp

text \<open>
  C8. No transaction of \<open>exCreated\<close> is dated in January 1970, whose window (zone UTC) ends
  at 2678399000: the three are dated in March 2024. For January 1970
  \<open>getMonthlyBalance\<close> returns income 500, expenses 80 and balance 420, and
  \<open>getCategoryExpenses\<close> returns the two categories with totals 50 and 30, where the
  results for a window with no transaction are zero and the empty list.
\<close>

theorem january_1970_counts_march_2024:
  "newDate 0 1970 0 1 0 0 0 = Some 0
   \<and> newDate 0 1970 1 0 23 59 59 = Some 2678399000
   \<and> map (\<lambda>t. mapFromDriverValue (tx_date t)) exCreated
       = [1710072000000, 1710504000000, 1710590400000]
   \<and> income (getMonthlyBalance 0 exCreated ''u1'' 1970 1) = 500
   \<and> expenses (getMonthlyBalance 0 exCreated ''u1'' 1970 1) = 80
   \<and> balance (getMonthlyBalance 0 exCreated ''u1'' 1970 1) = 420
   \<and> set (map (\<lambda>e. (categoryId e, total e))
             (getCategoryExpenses 0 exCreated exCategories ''u1'' 1970 1))
       = {(''cA'', 50), (''cB'', 30)}"
  by code_simp

subsection \<open>Empty results\<close>

lemma monthlyRows_empty_categoryRows:
  assumes "monthlyRows tz txs u y m = []"
  shows "categoryRows tz txs cats u y m = []"
proof -
  let ?P = "\<lambda>t. tx_userId t = u \<and> tx_type t = ''expense''
                 \<and> sql_ge (tx_date t) (newDate tz y (m - 1) 1 0 0 0)
                 \<and> sql_le (tx_date t) (newDate tz y m 0 23 59 59)"
  have "categoryRows tz txs cats u y m
      = innerJoin (filter ?P txs) cats (\<lambda>t c. tx_categoryId t = cat_id c)"
    unfolding categoryRows_def Let_def
    using filter_innerJoin_fst[of ?P txs cats "\<lambda>t c. tx_categoryId t = cat_id c"]
    by simp
  moreover from assms have "filter ?P txs = []"
    by (auto simp: monthlyRows_def Let_def filter_empty_conv)
  ultimately show ?thesis by (simp add: innerJoin_def)
qed

text \<open>
  When the \<^verbatim>\<open>where\<close> clause of the month selects no row the two monthly results are
  zero and empty; when the family group has no active alert \<open>checkSpendingAlerts\<close> returns
  the empty list; when no row meets the conditions of an alert its spending is 0.
\<close>

lemma empty_results:
  "(monthlyRows tz txs u y m = [] \<longrightarrow>
      getMonthlyBalance tz txs u y m = \<lparr>income = 0, expenses = 0, balance = 0\<rparr>
      \<and> getCategoryExpenses tz txs cats u y m = [])
   \<and> (filter (\<lambda>a. sa_isActive a \<and> sa_familyGroupId a = g) alerts = [] \<longrightarrow>
        checkSpendingAlerts tz now txs cats alerts g = [])
   \<and> ((\<forall>t\<in>set txs. \<not> list_all (\<lambda>cond. cond t) (whereClause tz now g a)) \<longrightarrow>
        currentSpending (checkAlert tz now txs g a) = 0
        \<and> percentageUsed (checkAlert tz now txs g a) = Num 0)"
proof -
  have 1: "monthlyRows tz txs u y m = [] \<longrightarrow>
      getMonthlyBalance tz txs u y m = \<lparr>income = 0, expenses = 0, balance = 0\<rparr>
      \<and> getCategoryExpenses tz txs cats u y m = []"
  proof
    assume e: "monthlyRows tz txs u y m = []"
    have a: "getMonthlyBalance tz txs u y m = \<lparr>income = 0, expenses = 0, balance = 0\<rparr>"
      by (simp add: getMonthlyBalance_def Let_def totalOf_groupSum e)
    have b: "getCategoryExpenses tz txs cats u y m = []"
      by (simp add: getCategoryExpenses_def Let_def monthlyRows_empty_categoryRows[OF e] groupSum_def)
    from a b show "getMonthlyBalance tz txs u y m = \<lparr>income = 0, expenses = 0, balance = 0\<rparr>
      \<and> getCategoryExpenses tz txs cats u y m = []" by simp
  qed
  have 2: "filter (\<lambda>a. sa_isActive a \<and> sa_familyGroupId a = g) alerts = [] \<longrightarrow>
        checkSpendingAlerts tz now txs cats alerts g = []"
  proof
    assume e: "filter (\<lambda>a. sa_isActive a \<and> sa_familyGroupId a = g) alerts = []"
    have "filter sa_isActive (getSpendingAlerts cats alerts g) = []"
    proof (rule ccontr)
      assume "filter sa_isActive (getSpendingAlerts cats alerts g) \<noteq> []"
      then obtain r where r: "r \<in> set (getSpendingAlerts cats alerts g)" and act: "sa_isActive r"
        by (auto simp: filter_empty_conv)
      from getSpendingAlerts_sound[OF r]
      have "spendingAlert.truncate r \<in> set alerts" and "sa_familyGroupId r = g" by auto
      moreover have "sa_isActive (spendingAlert.truncate r) = sa_isActive r"
        and "sa_familyGroupId (spendingAlert.truncate r) = sa_familyGroupId r"
        by (simp_all add: spendingAlert.defs)
      ultimately show False using e act by (auto simp: filter_empty_conv)
    qed
    then show "checkSpendingAlerts tz now txs cats alerts g = []"
      by (simp add: checkSpendingAlerts_map)
  qed
  have 3: "(\<forall>t\<in>set txs. \<not> list_all (\<lambda>cond. cond t) (whereClause tz now g a)) \<longrightarrow>
        currentSpending (checkAlert tz now txs g a) = 0
        \<and> percentageUsed (checkAlert tz now txs g a) = Num 0"
  proof
    assume "\<forall>t\<in>set txs. \<not> list_all (\<lambda>cond. cond t) (whereClause tz now g a)"
    then have "filter (\<lambda>t. list_all (\<lambda>cond. cond t) (whereClause tz now g a)) txs = []"
      by (simp add: filter_empty_conv)
    then show "currentSpending (checkAlert tz now txs g a) = 0
        \<and> percentageUsed (checkAlert tz now txs g a) = Num 0"
      by (simp add: currentSpendingOf_def percentageUsedOf_def fl_def)
  qed
  from 1 2 3 show ?thesis by blast
qed

subsection \<open>The owner filter\<close>

text \<open>
  C9. On the example ledger, whose first four rows belong to family group \<open>g1\<close> and user
  \<open>u1\<close>, \<open>checkSpendingAlerts\<close> called with \<open>g1\<close> counts the expenses of the group, while
  \<open>getMonthlyBalance\<close> and \<open>getCategoryExpenses\<close> called with \<open>g1\<close> select no row: they
  compare the identifier with the \<^verbatim>\<open>user_id\<close> column, and return the figures of the rows
  only when called with \<open>u1\<close>.
\<close>

theorem monthly_queries_filter_by_user_id:
  "map tx_familyGroupId (monthlyRows 0 exTransactions ''u1'' 2024 3) = [''g1'', ''g1'', ''g1'', ''g1'']
   \<and> getMonthlyBalance 0 exTransactions ''u1'' 2024 3 = \<lparr>income = 500, expenses = 150, balance = 350\<rparr>
   \<and> getMonthlyBalance 0 exTransactions ''g1'' 2024 3 = \<lparr>income = 0, expenses = 0, balance = 0\<rparr>
   \<and> getCategoryExpenses 0 exTransactions exCategories ''g1'' 2024 3 = []
   \<and> map currentSpending (checkSpendingAlerts 0 exNow exTransactions exCategories exAlerts ''g1'')
       = [110, 150]"
  by code_simp

subsection \<open>Totals by category and monthly expenses\<close>

lemma total_getCategoryExpenses:
  "sum_list (map total (getCategoryExpenses tz txs cats u y m))
     = sum_list (map (\<lambda>(t, c). tx_amount t) (categoryRows tz txs cats u y m))"
proof -
  have "map total (getCategoryExpenses tz txs cats u y m)
      = map snd (groupSum (\<lambda>(t, c). (cat_id c, cat_name c)) (\<lambda>(t, c). tx_amount t)
                      (categoryRows tz txs cats u y m))"
    by (simp add: getCategoryExpenses_def Let_def comp_def)
  then show ?thesis by (simp add: sum_list_groupSum)
qed

text \<open>
  With the sums of the engine taken as exact, distinct category identifiers and every row
  of type expense referring to a category, the totals by category sum to the monthly
  expenses: the two queries select the same rows of type expense.
\<close>

lemma category_totals_sum_to_expenses:
  assumes "distinct (map cat_id cats)"
    and "\<forall>t\<in>set txs. tx_type t = ''expense'' \<longrightarrow> tx_categoryId t \<in> cat_id ` set cats"
  shows "sum_list (map total (getCategoryExpenses tz txs cats u y m))
           = expenses (getMonthlyBalance tz txs u y m)"
proof -
  let ?P = "\<lambda>t. tx_userId t = u \<and> tx_type t = ''expense''
                 \<and> sql_ge (tx_date t) (newDate tz y (m - 1) 1 0 0 0)
                 \<and> sql_le (tx_date t) (newDate tz y m 0 23 59 59)"
  let ?on = "\<lambda>t c. tx_categoryId t = cat_id c"
  have rows: "categoryRows tz txs cats u y m = innerJoin (filter ?P txs) cats ?on"
    unfolding categoryRows_def Let_def
    using filter_innerJoin_fst[of ?P txs cats ?on] by simp
  have one: "\<forall>t\<in>set (filter ?P txs). \<exists>c. filter (?on t) cats = [c]"
  proof
    fix t assume "t \<in> set (filter ?P txs)"
    with assms(2) have "tx_categoryId t \<in> cat_id ` set cats" by auto
    from unique_match[OF assms(1) this] show "\<exists>c. filter (?on t) cats = [c]" .
  qed
  have "sum_list (map total (getCategoryExpenses tz txs cats u y m))
      = sum_list (map tx_amount (filter ?P txs))"
    by (simp only: total_getCategoryExpenses rows sum_innerJoin_unique[OF one])
  also have "filter ?P txs = filter (\<lambda>t. tx_type t = ''expense'') (monthlyRows tz txs u y m)"
    unfolding monthlyRows_def Let_def filter_filter
    by (rule filter_cong) auto
  finally show ?thesis
    by (simp add: expenses_getMonthlyBalance)
qed

end
